theory Spec2Isabelle
  imports Main "HOL-Library.Word"
begin

section \<open>Strings, bytes and thrown values\<close>

text \<open>
  A JavaScript string is a sequence of UTF-16 code units: \<open>title.length\<close> counts code
  units and \<open>title.substring\<close> cuts between them. The fixed texts of the source are
  ASCII literals; \<open>utf16\<close> turns such a literal into its code units.
\<close>

type_synonym js_string = "16 word list"

type_synonym array_buffer = "8 word list"

definition utf16 :: "string \<Rightarrow> js_string" where
  "utf16 s = map (\<lambda>c. word_of_nat (of_char c)) s"

text \<open>
  \<open>s.substring(a, b)\<close> for indices that are natural numbers: the two indices are
  swapped when \<open>a > b\<close> and both are clamped to the length of the string.
\<close>

definition substring :: "js_string \<Rightarrow> nat \<Rightarrow> nat \<Rightarrow> js_string" where
  "substring s a b = take (max a b - min a b) (drop (min a b) s)"

datatype js_error = Error string

section \<open>The site configuration\<close>

record site_config =
  name :: string
  url :: string
  description :: string
  author :: string

definition siteConfig :: site_config where
  "siteConfig =
     \<lparr> name = ''Revi's Blog'',
       url = ''https://revi-blog.rev.earth'',
       description = ''Revi's blog covers a wide range of topics, discussing everything from tech and creativity to life and beyond.'',
       author = ''Revi'' \<rparr>"

section \<open>Elements, image options and responses\<close>

text \<open>
  A JSX expression is a tree: an element has a tag, its props in the order written and
  its children; a text child carries a string. A prop is a string, a number or an object
  literal (the \<open>style\<close> prop).
\<close>

datatype jsx_prop = Str string | Num int | Obj "(string \<times> jsx_prop) list"

datatype node = Element string "(string \<times> jsx_prop) list" "node list" | Text js_string

text \<open>
  One entry of the \<open>fonts\<close> option (its fields \<open>name\<close>, \<open>data\<close>, \<open>style\<close> and
  \<open>weight\<close>, prefixed here to keep them apart from the fields of the site configuration)
  and the options object given to \<open>ImageResponse\<close>.
\<close>

record font_options =
  font_name :: string
  font_data :: array_buffer
  font_style :: string
  font_weight :: nat

record image_options =
  width :: nat
  height :: nat
  fonts :: "font_options list"

text \<open>
  The two kinds of response the handler builds: \<open>new Response(body, { status })\<close> and
  \<open>new ImageResponse(element, options)\<close>.
\<close>

datatype response = Response js_string nat | ImageResponse node image_options

section \<open>The request\<close>

record next_url =
  searchParams :: "(js_string \<times> js_string) list"

record next_request =
  nextUrl :: next_url

text \<open>\<open>searchParams.get(name)\<close>: the value of the first pair with that name, or \<open>null\<close>.\<close>

definition get :: "(js_string \<times> js_string) list \<Rightarrow> js_string \<Rightarrow> js_string option" where
  "get params k = map_of params k"

section \<open>The world outside the handler\<close>

text \<open>
  Two things happen outside the source: the fetch of the font file, which settles to the
  bytes of the file or to a rejection, and the constructor of \<open>ImageResponse\<close>, which
  belongs to the rendering library and may throw. Both are parameters of the model.
  The effects of the module are recorded as a list of events.
\<close>

record env =
  fetch_font :: "js_error + array_buffer"
  image_response_throws :: "node \<Rightarrow> image_options \<Rightarrow> js_error option"

datatype event = Fetch_font | Await_interBold | New_ImageResponse

text \<open>
  The module scope: \<open>interBold\<close> is the promise made when the module is loaded, held
  here by what it settles to. Loading the module calls \<open>fetch\<close> once.
\<close>

record module_scope =
  interBold :: "js_error + array_buffer"

definition module_init :: "env \<Rightarrow> module_scope \<times> event list" where
  "module_init e = (\<lparr> interBold = fetch_font e \<rparr>, [Fetch_font])"

section \<open>The heading\<close>

definition heading :: "js_string \<Rightarrow> js_string" where
  "heading title =
     (if length title > 140 then substring title 0 140 @ utf16 ''...'' else title)"

section \<open>The layout\<close>

definition path_style :: jsx_prop where
  "path_style =
     Obj [(''strokeWidth'', Num 15),
          (''strokeLinecap'', Str ''round''),
          (''strokeLinejoin'', Str ''round''),
          (''strokeMiterlimit'', Num 10)]"

definition logo_path :: "string \<Rightarrow> node" where
  "logo_path d =
     Element ''path''
       [(''d'', Str d),
        (''style'', path_style),
        (''fill'', Str ''none''),
        (''stroke'', Str ''#2e78c9''),
        (''data-original'', Str ''#000000''),
        (''opacity'', Str ''1'')]
       []"

definition logo_svg :: node where
  "logo_svg =
     Element ''svg''
       [(''xmlns'', Str ''http://www.w3.org/2000/svg''),
        (''version'', Str ''1.1''),
        (''xmlnsXlink'', Str ''http://www.w3.org/1999/xlink''),
        (''width'', Str ''50''),
        (''height'', Str ''50''),
        (''x'', Str ''0''),
        (''y'', Str ''0''),
        (''viewBox'', Str ''0 0 512 512''),
        (''xmlSpace'', Str ''preserve'')]
       [logo_path ''M256.073 256.042 471.207 380.25M40.792 380.249l215.099-124.186M256 63.447V7.5M256 256.042V98.447M228.542 456.94 256 504.5l215.208-372.749-341.889-.001M94.319 131.75H40.793l170.304 294.976M327.808 380.25h143.399l-71.723-124.229M112.516 256.021 40.792 380.249h143.346M327.592 131.5 256 7.5l-71.592 124'',
        logo_path ''m318.25 239.427 45.569 78.823-215.639-.001L256 131.75l44.663 77.255'']"

text \<open>The JSX expression of the handler, as a function of the heading.\<close>

definition card :: "js_string \<Rightarrow> node" where
  "card h =
     Element ''div''
       [(''tw'', Str ''flex relative flex-col p-12 w-full h-full items-start text-black bg-white'')]
       [Element ''div'' [(''tw'', Str ''flex items-center'')]
          [logo_svg,
           Element ''p'' [(''tw'', Str ''ml-4 font-bold text-2xl'')]
             [Text (utf16 ''Revi's Blog'')]],
        Element ''div'' [(''tw'', Str ''flex flex-col flex-1 py-10'')]
          [Element ''div'' [(''tw'', Str ''flex text-[80px] font-bold text-[50px]'')]
             [Text h]],
        Element ''div'' [(''tw'', Str ''flex items-center w-full justify-between'')]
          [Element ''div'' [(''tw'', Str ''flex text-md'')]
             [Text (utf16 (url siteConfig))]]]"

definition card_options :: "array_buffer \<Rightarrow> image_options" where
  "card_options fontBold =
     \<lparr> width = 800,
       height = 400,
       fonts = [\<lparr> font_name = ''Inter'',
                  font_data = fontBold,
                  font_style = ''normal'',
                  font_weight = 700 \<rparr>] \<rparr>"

section \<open>The handler\<close>

definition no_title_response :: response where
  "no_title_response = Response (utf16 ''No title provided'') 500"

definition failed_response :: response where
  "failed_response = Response (utf16 ''Failed to generate image'') 500"

text \<open>
  The body of the \<open>try\<close> block. Its result is the response it returns, or the value
  thrown (\<open>Inl\<close>), together with the events it performed. \<open>!title\<close> holds of \<open>null\<close>
  and of the empty string.
\<close>

definition GET_try :: "env \<Rightarrow> module_scope \<Rightarrow> next_request \<Rightarrow> (js_error + response) \<times> event list" where
  "GET_try e m req =
     (case interBold m of
        Inl err \<Rightarrow> (Inl err, [Await_interBold])
      | Inr fontBold \<Rightarrow>
          (case get (searchParams (nextUrl req)) (utf16 ''title'') of
             None \<Rightarrow> (Inr no_title_response, [Await_interBold])
           | Some title \<Rightarrow>
               if title = [] then (Inr no_title_response, [Await_interBold])
               else
                 (case image_response_throws e (card (heading title)) (card_options fontBold) of
                    Some err \<Rightarrow> (Inl err, [Await_interBold, New_ImageResponse])
                  | None \<Rightarrow>
                      (Inr (ImageResponse (card (heading title)) (card_options fontBold)),
                       [Await_interBold, New_ImageResponse]))))"

text \<open>
  The handler: the \<open>try\<close> block with its \<open>catch\<close>. The result type still has room for
  a thrown value, so that "nothing is thrown" is a statement about the handler.
\<close>

definition GET :: "env \<Rightarrow> module_scope \<Rightarrow> next_request \<Rightarrow> (js_error + response) \<times> event list" where
  "GET e m req =
     (case GET_try e m req of
        (Inl err, evs) \<Rightarrow> (Inr failed_response, evs)
      | (Inr r, evs) \<Rightarrow> (Inr r, evs))"

text \<open>A process: the module is loaded, then the requests are served in turn.\<close>

fun serve :: "env \<Rightarrow> module_scope \<Rightarrow> next_request list \<Rightarrow> (js_error + response) list \<times> event list" where
  "serve e m [] = ([], [])"
| "serve e m (req # reqs) =
     (case GET e m req of (r, evs) \<Rightarrow>
        (case serve e m reqs of (rs, evs') \<Rightarrow> (r # rs, evs @ evs')))"

definition process :: "env \<Rightarrow> next_request list \<Rightarrow> (js_error + response) list \<times> event list" where
  "process e reqs =
     (case module_init e of (m, evs) \<Rightarrow>
        (case serve e m reqs of (rs, evs') \<Rightarrow> (rs, evs @ evs')))"

section \<open>Reading a layout\<close>

text \<open>The texts of a tree, in document order.\<close>

fun texts :: "node \<Rightarrow> js_string list" where
  "texts (Text s) = [s]"
| "texts (Element tag props cs) = concat (map texts cs)"






text \<open>
  Colours as red, green and blue: the two colour names used by the layout and the
  notation \<open>#rrggbb\<close>.
\<close>

type_synonym rgb = "nat \<times> nat \<times> nat"

definition black :: rgb where
  "black = (0, 0, 0)"








section \<open>Scenarios\<close>

text \<open>
  Concrete worlds and requests: the font file is fetched and the library renders; the
  fetch of the font file is rejected; the library throws while composing.
\<close>

definition font_bytes :: array_buffer where
  "font_bytes = [0, 1, 0, 0]"

definition env_ok :: env where
  "env_ok = \<lparr> fetch_font = Inr font_bytes, image_response_throws = (\<lambda>el opts. None) \<rparr>"

definition env_font_rejected :: env where
  "env_font_rejected =
     \<lparr> fetch_font = Inl (Error ''fetch failed''), image_response_throws = (\<lambda>el opts. None) \<rparr>"

definition env_render_throws :: env where
  "env_render_throws =
     \<lparr> fetch_font = Inr font_bytes,
       image_response_throws = (\<lambda>el opts. Some (Error ''render failed'')) \<rparr>"

definition request_of :: "js_string option \<Rightarrow> next_request" where
  "request_of t =
     \<lparr> nextUrl =
         \<lparr> searchParams = (case t of None \<Rightarrow> [] | Some v \<Rightarrow> [(utf16 ''title'', v)]) \<rparr> \<rparr>"

definition hello :: js_string where
  "hello = utf16 ''Hello World''"

definition long_title :: js_string where
  "long_title = replicate 150 0x61"

section \<open>The heading transform\<close>

lemma length_utf16: "length (utf16 s) = length s"
  by (simp add: utf16_def)

lemma utf16_eq_Nil: "utf16 s = [] \<longleftrightarrow> s = []"
  by (simp add: utf16_def)

lemma heading_short: "length t \<le> 140 \<Longrightarrow> heading t = t"
  by (simp add: heading_def)

lemma heading_long: "140 < length t \<Longrightarrow> heading t = take 140 t @ utf16 ''...''"
  by (simp add: heading_def substring_def)

lemma length_heading_long: "140 < length t \<Longrightarrow> length (heading t) = 143"
  by (simp add: heading_long length_utf16)

lemma length_heading_le: "length (heading t) \<le> 143"
proof (cases "140 < length t")
  case True
  then show ?thesis by (simp add: length_heading_long)
next
  case False
  then show ?thesis by (simp add: heading_short)
qed

text \<open>
  C9. The heading transform is idempotent: applied to its own output it gives the same
  string as applied once.
\<close>

theorem C9_heading_idempotent: "heading (heading t) = heading t"
proof (cases "140 < length t")
  case True
  have once: "heading t = take 140 t @ utf16 ''...''"
    using True by (rule heading_long)
  have "140 < length (heading t)"
    using True by (simp add: length_heading_long)
  then have twice: "heading (heading t) = take 140 (heading t) @ utf16 ''...''"
    by (rule heading_long)
  have "length (take 140 t) = 140"
    using True by simp
  then have "take 140 (take 140 t @ utf16 ''...'') = take 140 t"
    by simp
  then have "take 140 (heading t) = take 140 t"
    by (simp only: once)
  with once twice show ?thesis
    by simp
next
  case False
  then show ?thesis by (simp add: heading_short)
qed

text \<open>
  C10. A title of exactly 141 or 142 code units gets a heading of 143 code units, which
  is strictly longer than the title; every title longer than 140 code units gets a
  heading of exactly 143 code units.
\<close>

theorem C10_heading_can_grow:
  "(length t = 141 \<or> length t = 142 \<longrightarrow> length (heading t) = 143 \<and> length t < length (heading t))
   \<and> (140 < length t \<longrightarrow> length (heading t) = 143)"
  by (auto simp: length_heading_long)

theorem C10_heading_can_grow_witness:
  "length (replicate 141 (0x61 :: 16 word)) = 141
   \<and> 140 < length (replicate 141 (0x61 :: 16 word))
   \<and> length (heading (replicate 141 0x61)) = 143
   \<and> length (replicate 141 (0x61 :: 16 word)) < length (heading (replicate 141 0x61))"
  using C10_heading_can_grow [of "replicate 141 0x61"] by simp

section \<open>The handler, case by case\<close>

lemma responses_distinct: "no_title_response \<noteq> failed_response"
proof
  assume "no_title_response = failed_response"
  then have "utf16 ''No title provided'' = utf16 ''Failed to generate image''"
    by (simp add: no_title_response_def failed_response_def)
  then have "length (utf16 ''No title provided'') = length (utf16 ''Failed to generate image'')"
    by (rule arg_cong)
  then show False
    by (simp add: length_utf16)
qed

lemma GET_font_rejected:
  "interBold m = Inl err \<Longrightarrow> GET e m req = (Inr failed_response, [Await_interBold])"
  by (simp add: GET_def GET_try_def)

lemma GET_title_absent:
  "interBold m = Inr fontBold \<Longrightarrow> get (searchParams (nextUrl req)) (utf16 ''title'') = None
   \<Longrightarrow> GET e m req = (Inr no_title_response, [Await_interBold])"
  by (simp add: GET_def GET_try_def)

lemma GET_title_empty:
  "interBold m = Inr fontBold \<Longrightarrow> get (searchParams (nextUrl req)) (utf16 ''title'') = Some []
   \<Longrightarrow> GET e m req = (Inr no_title_response, [Await_interBold])"
  by (simp add: GET_def GET_try_def)

lemma GET_render_throws:
  "interBold m = Inr fontBold \<Longrightarrow> get (searchParams (nextUrl req)) (utf16 ''title'') = Some title
   \<Longrightarrow> title \<noteq> []
   \<Longrightarrow> image_response_throws e (card (heading title)) (card_options fontBold) = Some err
   \<Longrightarrow> GET e m req = (Inr failed_response, [Await_interBold, New_ImageResponse])"
  by (simp add: GET_def GET_try_def)

lemma GET_image:
  "interBold m = Inr fontBold \<Longrightarrow> get (searchParams (nextUrl req)) (utf16 ''title'') = Some title
   \<Longrightarrow> title \<noteq> []
   \<Longrightarrow> image_response_throws e (card (heading title)) (card_options fontBold) = None
   \<Longrightarrow> GET e m req =
         (Inr (ImageResponse (card (heading title)) (card_options fontBold)),
          [Await_interBold, New_ImageResponse])"
  by (simp add: GET_def GET_try_def)

lemma GET_image_cases:
  assumes "fst (GET e m req) = Inr (ImageResponse el opts)"
  obtains fontBold title where "interBold m = Inr fontBold"
    and "get (searchParams (nextUrl req)) (utf16 ''title'') = Some title"
    and "title \<noteq> []"
    and "el = card (heading title)"
    and "opts = card_options fontBold"
  using assms
  by (auto simp: GET_def GET_try_def no_title_response_def failed_response_def
           split: sum.splits option.splits if_splits)

section \<open>The layout read back\<close>

lemma texts_card: "texts (card h) = [utf16 ''Revi's Blog'', h, utf16 (url siteConfig)]"
  by (simp add: card_def logo_svg_def logo_path_def)

lemma get_request_of_Some: "get (searchParams (nextUrl (request_of (Some t)))) (utf16 ''title'') = Some t"
  by (simp add: get_def request_of_def)

lemma get_request_of_None: "get (searchParams (nextUrl (request_of None))) (utf16 ''title'') = None"
  by (simp add: get_def request_of_def)








section \<open>The scenarios evaluated\<close>

lemma module_init_ok: "interBold (fst (module_init env_ok)) = Inr font_bytes"
  by (simp add: module_init_def env_ok_def)

lemma module_init_font_rejected:
  "interBold (fst (module_init env_font_rejected)) = Inl (Error ''fetch failed'')"
  by (simp add: module_init_def env_font_rejected_def)

lemma module_init_render_throws: "interBold (fst (module_init env_render_throws)) = Inr font_bytes"
  by (simp add: module_init_def env_render_throws_def)

lemma hello_facts: "hello \<noteq> []" "length hello = 11"
  by (simp_all add: hello_def utf16_eq_Nil length_utf16)

lemma long_title_facts: "long_title \<noteq> []" "length long_title = 150"
  by (simp_all add: long_title_def)

lemma GET_ok_hello:
  "GET env_ok (fst (module_init env_ok)) (request_of (Some hello)) =
     (Inr (ImageResponse (card hello) (card_options font_bytes)),
      [Await_interBold, New_ImageResponse])"
proof -
  have "image_response_throws env_ok (card (heading hello)) (card_options font_bytes) = None"
    by (simp add: env_ok_def)
  from GET_image [OF module_init_ok get_request_of_Some hello_facts(1) this]
  show ?thesis
    by (simp add: heading_short hello_facts)
qed

lemma GET_ok_long:
  "GET env_ok (fst (module_init env_ok)) (request_of (Some long_title)) =
     (Inr (ImageResponse (card (heading long_title)) (card_options font_bytes)),
      [Await_interBold, New_ImageResponse])"
proof -
  have "image_response_throws env_ok (card (heading long_title)) (card_options font_bytes) = None"
    by (simp add: env_ok_def)
  from GET_image [OF module_init_ok get_request_of_Some long_title_facts(1) this]
  show ?thesis .
qed

lemma take_long_title: "take 140 long_title = replicate 140 0x61"
  unfolding long_title_def by (simp only: take_replicate) simp

section \<open>The heading in the rendered layout\<close>

text \<open>
  C1. Whenever the handler answers with an image for a request with title \<open>title\<close>:
  a non-empty title of at most 140 code units is the heading of the layout, unchanged; a
  title of more than 140 code units gives the heading made of its first 140 code units
  followed by the three code units of \<open>...\<close>. The heading is the second of the three
  texts of the layout, between the site label and the site address.
\<close>

theorem C1_rendered_heading:
  assumes "fst (GET e m req) = Inr (ImageResponse el opts)"
    and "get (searchParams (nextUrl req)) (utf16 ''title'') = Some title"
  shows "(title \<noteq> [] \<and> length title \<le> 140 \<longrightarrow>
            texts el = [utf16 ''Revi's Blog'', title, utf16 (url siteConfig)])
       \<and> (140 < length title \<longrightarrow>
            texts el = [utf16 ''Revi's Blog'', take 140 title @ utf16 ''...'', utf16 (url siteConfig)])"
proof -
  from assms(1) obtain t where "get (searchParams (nextUrl req)) (utf16 ''title'') = Some t"
    and "el = card (heading t)"
    by (rule GET_image_cases)
  with assms(2) have "el = card (heading title)"
    by simp
  then show ?thesis
    by (simp add: texts_card heading_short heading_long)
qed

theorem C1_rendered_heading_witness:
  "fst (GET env_ok (fst (module_init env_ok)) (request_of (Some hello)))
     = Inr (ImageResponse (card hello) (card_options font_bytes))
   \<and> get (searchParams (nextUrl (request_of (Some hello)))) (utf16 ''title'') = Some hello
   \<and> hello \<noteq> [] \<and> length hello \<le> 140
   \<and> texts (card hello) = [utf16 ''Revi's Blog'', hello, utf16 (url siteConfig)]
   \<and> fst (GET env_ok (fst (module_init env_ok)) (request_of (Some long_title)))
     = Inr (ImageResponse (card (heading long_title)) (card_options font_bytes))
   \<and> get (searchParams (nextUrl (request_of (Some long_title)))) (utf16 ''title'') = Some long_title
   \<and> 140 < length long_title
   \<and> texts (card (heading long_title))
       = [utf16 ''Revi's Blog'', replicate 140 0x61 @ utf16 ''...'', utf16 (url siteConfig)]"
proof -
  have a: "fst (GET env_ok (fst (module_init env_ok)) (request_of (Some hello)))
     = Inr (ImageResponse (card hello) (card_options font_bytes))"
    by (simp add: GET_ok_hello)
  have a': "hello \<noteq> [] \<and> length hello \<le> 140"
    by (simp add: hello_facts)
  have b: "fst (GET env_ok (fst (module_init env_ok)) (request_of (Some long_title)))
     = Inr (ImageResponse (card (heading long_title)) (card_options font_bytes))"
    by (simp add: GET_ok_long)
  have b': "140 < length long_title"
    by (simp add: long_title_facts)
  from C1_rendered_heading [OF a get_request_of_Some] a'
  have c: "texts (card hello) = [utf16 ''Revi's Blog'', hello, utf16 (url siteConfig)]"
    by blast
  from C1_rendered_heading [OF b get_request_of_Some] b'
  have "texts (card (heading long_title))
       = [utf16 ''Revi's Blog'', take 140 long_title @ utf16 ''...'', utf16 (url siteConfig)]"
    by blast
  then have d: "texts (card (heading long_title))
       = [utf16 ''Revi's Blog'', replicate 140 0x61 @ utf16 ''...'', utf16 (url siteConfig)]"
    by (simp only: take_long_title)
  from a a' b b' c d get_request_of_Some [of hello] get_request_of_Some [of long_title]
  show ?thesis
    by blast
qed

text \<open>
  C7. Whenever the handler answers with an image for a request with title \<open>title\<close>,
  the layout given to the rendering library is the layout of \<open>heading title\<close>, and that
  heading never has more than 143 code units: for a title of more than 140 code units it
  has at most 140 + 3, and otherwise it is the title unchanged.
\<close>

theorem C7_heading_at_most_143:
  assumes "fst (GET e m req) = Inr (ImageResponse el opts)"
    and "get (searchParams (nextUrl req)) (utf16 ''title'') = Some title"
  shows "el = card (heading title)
       \<and> length (heading title) \<le> 143
       \<and> (140 < length title \<longrightarrow> length (heading title) \<le> 140 + 3)
       \<and> (length title \<le> 140 \<longrightarrow> heading title = title)"
proof -
  from assms(1) obtain t where "get (searchParams (nextUrl req)) (utf16 ''title'') = Some t"
    and "el = card (heading t)"
    by (rule GET_image_cases)
  with assms(2) have "el = card (heading title)"
    by simp
  moreover have "length (heading title) \<le> 143"
    by (rule length_heading_le)
  ultimately show ?thesis
    by (simp add: heading_short)
qed

theorem C7_heading_at_most_143_witness:
  "fst (GET env_ok (fst (module_init env_ok)) (request_of (Some hello)))
     = Inr (ImageResponse (card hello) (card_options font_bytes))
   \<and> get (searchParams (nextUrl (request_of (Some hello)))) (utf16 ''title'') = Some hello
   \<and> length hello \<le> 140 \<and> heading hello = hello \<and> length (heading hello) \<le> 143
   \<and> fst (GET env_ok (fst (module_init env_ok)) (request_of (Some long_title)))
     = Inr (ImageResponse (card (heading long_title)) (card_options font_bytes))
   \<and> get (searchParams (nextUrl (request_of (Some long_title)))) (utf16 ''title'') = Some long_title
   \<and> 140 < length long_title \<and> length (heading long_title) \<le> 140 + 3"
proof -
  have a: "fst (GET env_ok (fst (module_init env_ok)) (request_of (Some hello)))
     = Inr (ImageResponse (card hello) (card_options font_bytes))"
    by (simp add: GET_ok_hello)
  have a': "length hello \<le> 140"
    by (simp add: hello_facts)
  have b: "fst (GET env_ok (fst (module_init env_ok)) (request_of (Some long_title)))
     = Inr (ImageResponse (card (heading long_title)) (card_options font_bytes))"
    by (simp add: GET_ok_long)
  have b': "140 < length long_title"
    by (simp add: long_title_facts)
  from C7_heading_at_most_143 [OF a get_request_of_Some] a'
  have c: "heading hello = hello \<and> length (heading hello) \<le> 143"
    by blast
  from C7_heading_at_most_143 [OF b get_request_of_Some] b'
  have d: "length (heading long_title) \<le> 140 + 3"
    by blast
  from a a' b b' c d get_request_of_Some [of hello] get_request_of_Some [of long_title]
  show ?thesis
    by blast
qed

section \<open>The size of the image\<close>

text \<open>
  C6. Whenever the handler answers with an image, whatever the title, the image is asked
  for at 800 pixels wide and 400 pixels tall.
\<close>

theorem C6_image_800_by_400:
  assumes "fst (GET e m req) = Inr (ImageResponse el opts)"
  shows "width opts = 800 \<and> height opts = 400"
proof -
  from assms obtain fontBold where "opts = card_options fontBold"
    by (rule GET_image_cases)
  then show ?thesis
    by (simp add: card_options_def)
qed

theorem C6_image_800_by_400_witness:
  "fst (GET env_ok (fst (module_init env_ok)) (request_of (Some hello)))
     = Inr (ImageResponse (card hello) (card_options font_bytes))
   \<and> width (card_options font_bytes) = 800 \<and> height (card_options font_bytes) = 400
   \<and> fst (GET env_ok (fst (module_init env_ok)) (request_of (Some long_title)))
     = Inr (ImageResponse (card (heading long_title)) (card_options font_bytes))"
proof -
  have a: "fst (GET env_ok (fst (module_init env_ok)) (request_of (Some hello)))
     = Inr (ImageResponse (card hello) (card_options font_bytes))"
    by (simp add: GET_ok_hello)
  have b: "fst (GET env_ok (fst (module_init env_ok)) (request_of (Some long_title)))
     = Inr (ImageResponse (card (heading long_title)) (card_options font_bytes))"
    by (simp add: GET_ok_long)
  from C6_image_800_by_400 [OF a] C6_image_800_by_400 [OF b]
  show ?thesis
    using a b by blast
qed

section \<open>One fetch for the whole process\<close>

lemma GET_events:
  "snd (GET e m req) = [Await_interBold] \<or> snd (GET e m req) = [Await_interBold, New_ImageResponse]"
  by (simp add: GET_def GET_try_def split: sum.splits option.splits)

lemma GET_fetches: "count_list (snd (GET e m req)) Fetch_font = 0"
  using GET_events [of e m req] by auto

lemma GET_awaits: "count_list (snd (GET e m req)) Await_interBold = 1"
  using GET_events [of e m req] by auto

lemma serve_responses: "fst (serve e m reqs) = map (\<lambda>req. fst (GET e m req)) reqs"
  by (induction reqs) (auto split: prod.splits)

lemma serve_fetches: "count_list (snd (serve e m reqs)) Fetch_font = 0"
proof (induction reqs)
  case Nil
  show ?case by simp
next
  case (Cons req reqs)
  obtain r evs where g: "GET e m req = (r, evs)"
    by (cases "GET e m req")
  obtain rs evs' where s: "serve e m reqs = (rs, evs')"
    by (cases "serve e m reqs")
  from g have "count_list evs Fetch_font = 0"
    using GET_fetches [of e m req] by simp
  moreover from s Cons.IH have "count_list evs' Fetch_font = 0"
    by simp
  ultimately show ?case
    by (simp add: g s)
qed

lemma serve_awaits: "count_list (snd (serve e m reqs)) Await_interBold = length reqs"
proof (induction reqs)
  case Nil
  show ?case by simp
next
  case (Cons req reqs)
  obtain r evs where g: "GET e m req = (r, evs)"
    by (cases "GET e m req")
  obtain rs evs' where s: "serve e m reqs = (rs, evs')"
    by (cases "serve e m reqs")
  from g have "count_list evs Await_interBold = 1"
    using GET_awaits [of e m req] by simp
  moreover from s Cons.IH have "count_list evs' Await_interBold = length reqs"
    by simp
  ultimately show ?case
    by (simp add: g s)
qed

lemma process_unfold:
  "process e reqs =
     (fst (serve e (fst (module_init e)) reqs), Fetch_font # snd (serve e (fst (module_init e)) reqs))"
  by (simp add: process_def module_init_def split: prod.splits)

lemma GET_ignores_fetch: "GET (e\<lparr>fetch_font := x\<rparr>) m req = GET e m req"
  by (simp add: GET_def GET_try_def split: sum.splits option.splits)

lemma module_init_interBold: "interBold (fst (module_init e)) = fetch_font e"
  by (simp add: module_init_def)

lemma process_responses:
  "fst (process e reqs) = map (\<lambda>req. fst (GET e (fst (module_init e)) req)) reqs"
  by (simp add: process_unfold serve_responses)

lemma process_font_rejected:
  assumes "fetch_font e = Inl err"
  shows "fst (process e reqs) = map (\<lambda>req. Inr failed_response) reqs"
proof -
  have "interBold (fst (module_init e)) = Inl err"
    using assms by (simp add: module_init_interBold)
  then have "fst (GET e (fst (module_init e)) req) = Inr failed_response" for req
    by (simp add: GET_font_rejected)
  then show ?thesis
    by (simp add: process_responses)
qed

lemma process_font_resolved:
  assumes "fetch_font e = Inr bytes"
    and "Inr (ImageResponse el opts) \<in> set (fst (process e reqs))"
  shows "map font_data (fonts opts) = [bytes]"
proof -
  from assms(2) obtain req
    where "fst (GET e (fst (module_init e)) req) = Inr (ImageResponse el opts)"
    by (auto simp: process_responses)
  then obtain fontBold where "interBold (fst (module_init e)) = Inr fontBold"
    and "opts = card_options fontBold"
    by (rule GET_image_cases)
  with assms(1) show ?thesis
    by (simp add: module_init_interBold card_options_def)
qed

text \<open>
  C5. In a process, that is the loading of the module followed by any list of requests,
  \<open>fetch\<close> is called exactly once, and it is the first event; the promise kept in
  \<open>interBold\<close> is the one that fetch made; every request awaits it once and is answered
  by the handler reading the one module scope made at loading. What the requests get is
  what that one fetch settled to: when it is rejected every request gets the failure
  response, and when it is resolved every image response carries its bytes as font data.
  The handler never looks at the fetch itself, only at \<open>interBold\<close>.
\<close>

theorem C5_single_fetch:
  "count_list (snd (process e reqs)) Fetch_font = 1
   \<and> hd (snd (process e reqs)) = Fetch_font
   \<and> count_list (snd (process e reqs)) Await_interBold = length reqs
   \<and> interBold (fst (module_init e)) = fetch_font e
   \<and> fst (process e reqs) = map (\<lambda>req. fst (GET e (fst (module_init e)) req)) reqs
   \<and> GET (e\<lparr>fetch_font := x\<rparr>) m req = GET e m req
   \<and> (fetch_font e = Inl err \<longrightarrow>
        fst (process e reqs) = map (\<lambda>req. Inr failed_response) reqs)
   \<and> (fetch_font e = Inr bytes \<and> Inr (ImageResponse el opts) \<in> set (fst (process e reqs)) \<longrightarrow>
        map font_data (fonts opts) = [bytes])"
proof -
  have "count_list (snd (process e reqs)) Fetch_font = 1"
    by (simp add: process_unfold serve_fetches)
  moreover have "hd (snd (process e reqs)) = Fetch_font"
    by (simp add: process_unfold)
  moreover have "count_list (snd (process e reqs)) Await_interBold = length reqs"
    by (simp add: process_unfold serve_awaits)
  moreover note module_init_interBold [of e] process_responses [of e reqs]
    GET_ignores_fetch [where e = e and x = x and m = m and req = req]
  moreover have "fetch_font e = Inl err \<longrightarrow>
        fst (process e reqs) = map (\<lambda>req. Inr failed_response) reqs"
    using process_font_rejected by blast
  moreover have "fetch_font e = Inr bytes
        \<and> Inr (ImageResponse el opts) \<in> set (fst (process e reqs)) \<longrightarrow>
        map font_data (fonts opts) = [bytes]"
    using process_font_resolved by blast
  ultimately show ?thesis
    by blast
qed

theorem C5_single_fetch_witness:
  "fetch_font env_font_rejected = Inl (Error ''fetch failed'')
   \<and> fst (process env_font_rejected [request_of (Some hello), request_of None])
       = [Inr failed_response, Inr failed_response]
   \<and> count_list (snd (process env_font_rejected [request_of (Some hello), request_of None]))
        Fetch_font = 1
   \<and> fetch_font env_ok = Inr font_bytes
   \<and> Inr (ImageResponse (card hello) (card_options font_bytes))
       \<in> set (fst (process env_ok [request_of (Some hello), request_of None]))
   \<and> map font_data (fonts (card_options font_bytes)) = [font_bytes]
   \<and> count_list (snd (process env_ok [request_of (Some hello), request_of None])) Fetch_font = 1
   \<and> count_list (snd (process env_ok [request_of (Some hello), request_of None]))
        Await_interBold = 2"
proof -
  note rejected = C5_single_fetch
    [where e = env_font_rejected and reqs = "[request_of (Some hello), request_of None]"
       and err = "Error ''fetch failed''" and x = "fetch_font env_ok"
       and m = "fst (module_init env_ok)" and req = "request_of None"]
  note resolved = C5_single_fetch
    [where e = env_ok and reqs = "[request_of (Some hello), request_of None]"
       and bytes = font_bytes and el = "card hello" and opts = "card_options font_bytes"
       and x = "fetch_font env_font_rejected" and m = "fst (module_init env_ok)"
       and req = "request_of None"]
  have a: "fetch_font env_font_rejected = Inl (Error ''fetch failed'')"
    by (simp add: env_font_rejected_def)
  with rejected
  have "fst (process env_font_rejected [request_of (Some hello), request_of None])
       = map (\<lambda>req. Inr failed_response) [request_of (Some hello), request_of None]"
    by blast
  then have b: "fst (process env_font_rejected [request_of (Some hello), request_of None])
       = [Inr failed_response, Inr failed_response]"
    by simp
  from rejected
  have c: "count_list (snd (process env_font_rejected [request_of (Some hello), request_of None]))
        Fetch_font = 1"
    by blast
  have d: "fetch_font env_ok = Inr font_bytes"
    by (simp add: env_ok_def)
  from resolved
  have "fst (process env_ok [request_of (Some hello), request_of None])
       = map (\<lambda>req. fst (GET env_ok (fst (module_init env_ok)) req))
           [request_of (Some hello), request_of None]"
    by blast
  then have f: "Inr (ImageResponse (card hello) (card_options font_bytes))
       \<in> set (fst (process env_ok [request_of (Some hello), request_of None]))"
    by (simp add: GET_ok_hello)
  from resolved d f
  have g: "map font_data (fonts (card_options font_bytes)) = [font_bytes]"
    by blast
  from resolved
  have h: "count_list (snd (process env_ok [request_of (Some hello), request_of None])) Fetch_font = 1
     \<and> count_list (snd (process env_ok [request_of (Some hello), request_of None]))
        Await_interBold = length [request_of (Some hello), request_of None]"
    by blast
  then have h': "count_list (snd (process env_ok [request_of (Some hello), request_of None])) Fetch_font = 1
     \<and> count_list (snd (process env_ok [request_of (Some hello), request_of None]))
        Await_interBold = 2"
    by simp
  from a b c d f g h' show ?thesis
    by blast
qed

section \<open>The catch\<close>

text \<open>
  C4. The handler never throws: it always returns a response, which is an image response,
  the response \<open>No title provided\<close> with status 500 or the response
  \<open>Failed to generate image\<close> with status 500. Whatever the \<open>try\<close> block throws is
  turned into the last of these; the block throws when the font promise is rejected and
  when the constructor of \<open>ImageResponse\<close> throws.
\<close>

theorem C4_nothing_propagates:
  "(\<exists>r. fst (GET e m req) = Inr r
        \<and> ((\<exists>el opts. r = ImageResponse el opts)
           \<or> r = Response (utf16 ''No title provided'') 500
           \<or> r = Response (utf16 ''Failed to generate image'') 500))
   \<and> (fst (GET_try e m req) = Inl err \<longrightarrow>
        fst (GET e m req) = Inr (Response (utf16 ''Failed to generate image'') 500))
   \<and> (interBold m = Inl err \<longrightarrow> fst (GET_try e m req) = Inl err)
   \<and> (interBold m = Inr fontBold
        \<and> get (searchParams (nextUrl req)) (utf16 ''title'') = Some title \<and> title \<noteq> []
        \<and> image_response_throws e (card (heading title)) (card_options fontBold) = Some err
      \<longrightarrow> fst (GET_try e m req) = Inl err)"
  by (auto simp: GET_def GET_try_def no_title_response_def failed_response_def
           split: sum.splits option.splits)

lemma throws_hello:
  "image_response_throws env_render_throws (card (heading hello)) (card_options font_bytes)
     = Some (Error ''render failed'')"
  by (simp add: env_render_throws_def)

theorem C4_nothing_propagates_witness:
  "interBold (fst (module_init env_font_rejected)) = Inl (Error ''fetch failed'')
   \<and> fst (GET_try env_font_rejected (fst (module_init env_font_rejected)) (request_of (Some hello)))
       = Inl (Error ''fetch failed'')
   \<and> fst (GET env_font_rejected (fst (module_init env_font_rejected)) (request_of (Some hello)))
       = Inr (Response (utf16 ''Failed to generate image'') 500)
   \<and> interBold (fst (module_init env_render_throws)) = Inr font_bytes
   \<and> get (searchParams (nextUrl (request_of (Some hello)))) (utf16 ''title'') = Some hello
   \<and> hello \<noteq> []
   \<and> image_response_throws env_render_throws (card (heading hello)) (card_options font_bytes)
       = Some (Error ''render failed'')
   \<and> fst (GET_try env_render_throws (fst (module_init env_render_throws)) (request_of (Some hello)))
       = Inl (Error ''render failed'')
   \<and> fst (GET env_render_throws (fst (module_init env_render_throws)) (request_of (Some hello)))
       = Inr (Response (utf16 ''Failed to generate image'') 500)"
proof -
  note rejected = C4_nothing_propagates
    [where e = env_font_rejected and m = "fst (module_init env_font_rejected)"
       and req = "request_of (Some hello)" and err = "Error ''fetch failed''"]
  note thrown = C4_nothing_propagates
    [where e = env_render_throws and m = "fst (module_init env_render_throws)"
       and req = "request_of (Some hello)" and err = "Error ''render failed''"
       and fontBold = font_bytes and title = hello]
  from rejected module_init_font_rejected
  have a: "fst (GET_try env_font_rejected (fst (module_init env_font_rejected)) (request_of (Some hello)))
       = Inl (Error ''fetch failed'')"
    by blast
  with rejected
  have b: "fst (GET env_font_rejected (fst (module_init env_font_rejected)) (request_of (Some hello)))
       = Inr (Response (utf16 ''Failed to generate image'') 500)"
    by blast
  from thrown module_init_render_throws get_request_of_Some [of hello] hello_facts(1) throws_hello
  have c: "fst (GET_try env_render_throws (fst (module_init env_render_throws)) (request_of (Some hello)))
       = Inl (Error ''render failed'')"
    by blast
  with thrown
  have d: "fst (GET env_render_throws (fst (module_init env_render_throws)) (request_of (Some hello)))
       = Inr (Response (utf16 ''Failed to generate image'') 500)"
    by blast
  from a b c d module_init_font_rejected module_init_render_throws
    get_request_of_Some [of hello] hello_facts(1) throws_hello
  show ?thesis
    by blast
qed

section \<open>A missing title\<close>

lemma get_request_of_empty:
  "get (searchParams (nextUrl (request_of (Some [])))) (utf16 ''title'') = Some []"
  by (rule get_request_of_Some)

text \<open>
  With no title and the font promise rejected, the handler answers
  \<open>Failed to generate image\<close> and not \<open>No title provided\<close>: the font is awaited
  before the title is read.
\<close>

theorem C2_counterexample:
  "get (searchParams (nextUrl (request_of None))) (utf16 ''title'') = None
   \<and> fst (GET env_font_rejected (fst (module_init env_font_rejected)) (request_of None))
       = Inr (Response (utf16 ''Failed to generate image'') 500)
   \<and> fst (GET env_font_rejected (fst (module_init env_font_rejected)) (request_of None))
       \<noteq> Inr (Response (utf16 ''No title provided'') 500)"
proof -
  have "fst (GET env_font_rejected (fst (module_init env_font_rejected)) (request_of None))
       = Inr failed_response"
    by (simp add: GET_font_rejected [OF module_init_font_rejected])
  with responses_distinct get_request_of_None show ?thesis
    by (simp add: no_title_response_def failed_response_def)
qed

text \<open>
  C2, as amended. For a request whose title is absent or the empty string, no image
  response is constructed, and the handler answers with status 500: with the body
  \<open>No title provided\<close> when the font promise is resolved, and with the body
  \<open>Failed to generate image\<close> when it is rejected.
\<close>

theorem C2_missing_title:
  assumes "get (searchParams (nextUrl req)) (utf16 ''title'') = None
         \<or> get (searchParams (nextUrl req)) (utf16 ''title'') = Some []"
  shows "(interBold m = Inr fontBold \<longrightarrow>
            fst (GET e m req) = Inr (Response (utf16 ''No title provided'') 500))
       \<and> (interBold m = Inl err \<longrightarrow>
            fst (GET e m req) = Inr (Response (utf16 ''Failed to generate image'') 500))
       \<and> New_ImageResponse \<notin> set (snd (GET e m req))"
  using assms
  by (auto simp: GET_def GET_try_def no_title_response_def failed_response_def
           split: sum.splits option.splits)

theorem C2_missing_title_witness:
  "get (searchParams (nextUrl (request_of None))) (utf16 ''title'') = None
   \<and> interBold (fst (module_init env_ok)) = Inr font_bytes
   \<and> fst (GET env_ok (fst (module_init env_ok)) (request_of None))
       = Inr (Response (utf16 ''No title provided'') 500)
   \<and> New_ImageResponse \<notin> set (snd (GET env_ok (fst (module_init env_ok)) (request_of None)))
   \<and> get (searchParams (nextUrl (request_of (Some [])))) (utf16 ''title'') = Some []
   \<and> interBold (fst (module_init env_font_rejected)) = Inl (Error ''fetch failed'')
   \<and> fst (GET env_font_rejected (fst (module_init env_font_rejected)) (request_of (Some [])))
       = Inr (Response (utf16 ''Failed to generate image'') 500)"
proof -
  have absent: "get (searchParams (nextUrl (request_of None))) (utf16 ''title'') = None
         \<or> get (searchParams (nextUrl (request_of None))) (utf16 ''title'') = Some []"
    using get_request_of_None by blast
  have empty: "get (searchParams (nextUrl (request_of (Some [])))) (utf16 ''title'') = None
         \<or> get (searchParams (nextUrl (request_of (Some [])))) (utf16 ''title'') = Some []"
    using get_request_of_empty by blast
  from C2_missing_title [OF absent, where m = "fst (module_init env_ok)" and fontBold = font_bytes
      and e = env_ok]
    module_init_ok
  have a: "fst (GET env_ok (fst (module_init env_ok)) (request_of None))
       = Inr (Response (utf16 ''No title provided'') 500)
     \<and> New_ImageResponse \<notin> set (snd (GET env_ok (fst (module_init env_ok)) (request_of None)))"
    by blast
  from C2_missing_title [OF empty, where m = "fst (module_init env_font_rejected)"
      and e = env_font_rejected and err = "Error ''fetch failed''"]
    module_init_font_rejected
  have b: "fst (GET env_font_rejected (fst (module_init env_font_rejected)) (request_of (Some [])))
       = Inr (Response (utf16 ''Failed to generate image'') 500)"
    by blast
  from a b get_request_of_None get_request_of_empty module_init_ok module_init_font_rejected
  show ?thesis
    by blast
qed

text \<open>
  With the empty title, the answer depends on the outcome of the font retrieval: the
  missing-title response when the font promise is resolved, the failure response when it
  is rejected.
\<close>

theorem C3_counterexample:
  "get (searchParams (nextUrl (request_of (Some [])))) (utf16 ''title'') = Some []
   \<and> fst (GET env_ok (fst (module_init env_ok)) (request_of (Some []))) = Inr no_title_response
   \<and> fst (GET env_font_rejected (fst (module_init env_font_rejected)) (request_of (Some [])))
       = Inr failed_response
   \<and> fst (GET env_font_rejected (fst (module_init env_font_rejected)) (request_of (Some [])))
       \<noteq> fst (GET env_ok (fst (module_init env_ok)) (request_of (Some [])))"
proof -
  have a: "fst (GET env_ok (fst (module_init env_ok)) (request_of (Some []))) = Inr no_title_response"
    by (simp add: GET_title_empty [OF module_init_ok get_request_of_empty])
  have b: "fst (GET env_font_rejected (fst (module_init env_font_rejected)) (request_of (Some [])))
       = Inr failed_response"
    by (simp add: GET_font_rejected [OF module_init_font_rejected])
  from a b responses_distinct get_request_of_empty show ?thesis
    by simp
qed

text \<open>
  C3, as amended. For a request whose title is absent or the empty string, nothing is
  rendered: the only event of the handler is the awaiting of the font promise, and its
  result is the same whatever the constructor of \<open>ImageResponse\<close> would do. The
  missing-title response is given when the font promise is resolved, the failure response
  when it is rejected, and the two responses differ.
\<close>

theorem C3_no_attempt_to_render:
  assumes "get (searchParams (nextUrl req)) (utf16 ''title'') = None
         \<or> get (searchParams (nextUrl req)) (utf16 ''title'') = Some []"
  shows "GET (e\<lparr>image_response_throws := c\<rparr>) m req = GET e m req
       \<and> snd (GET e m req) = [Await_interBold]
       \<and> (interBold m = Inr fontBold \<longrightarrow> fst (GET e m req) = Inr no_title_response)
       \<and> (interBold m = Inl err \<longrightarrow> fst (GET e m req) = Inr failed_response)
       \<and> no_title_response \<noteq> failed_response"
  using assms responses_distinct
  by (auto simp: GET_def GET_try_def split: sum.splits option.splits)

theorem C3_no_attempt_to_render_witness:
  "get (searchParams (nextUrl (request_of (Some [])))) (utf16 ''title'') = Some []
   \<and> interBold (fst (module_init env_ok)) = Inr font_bytes
   \<and> GET env_render_throws (fst (module_init env_ok)) (request_of (Some []))
       = GET env_ok (fst (module_init env_ok)) (request_of (Some []))
   \<and> GET env_ok (fst (module_init env_ok)) (request_of (Some []))
       = (Inr no_title_response, [Await_interBold])
   \<and> get (searchParams (nextUrl (request_of None))) (utf16 ''title'') = None
   \<and> interBold (fst (module_init env_font_rejected)) = Inl (Error ''fetch failed'')
   \<and> GET env_font_rejected (fst (module_init env_font_rejected)) (request_of None)
       = (Inr failed_response, [Await_interBold])"
proof -
  have absent: "get (searchParams (nextUrl (request_of None))) (utf16 ''title'') = None
         \<or> get (searchParams (nextUrl (request_of None))) (utf16 ''title'') = Some []"
    using get_request_of_None by blast
  have empty: "get (searchParams (nextUrl (request_of (Some [])))) (utf16 ''title'') = None
         \<or> get (searchParams (nextUrl (request_of (Some [])))) (utf16 ''title'') = Some []"
    using get_request_of_empty by blast
  have env: "env_ok\<lparr>image_response_throws := (\<lambda>el opts. Some (Error ''render failed''))\<rparr>
               = env_render_throws"
    by (simp add: env_ok_def env_render_throws_def)
  from C3_no_attempt_to_render [OF empty, where e = env_ok
      and c = "\<lambda>el opts. Some (Error ''render failed'')" and m = "fst (module_init env_ok)"
      and fontBold = font_bytes]
    module_init_ok
  have a: "GET env_render_throws (fst (module_init env_ok)) (request_of (Some []))
       = GET env_ok (fst (module_init env_ok)) (request_of (Some []))
     \<and> GET env_ok (fst (module_init env_ok)) (request_of (Some []))
       = (Inr no_title_response, [Await_interBold])"
    by (simp add: env prod_eq_iff)
  from C3_no_attempt_to_render [OF absent, where e = env_font_rejected
      and m = "fst (module_init env_font_rejected)" and err = "Error ''fetch failed''"]
    module_init_font_rejected
  have b: "GET env_font_rejected (fst (module_init env_font_rejected)) (request_of None)
       = (Inr failed_response, [Await_interBold])"
    by (simp add: prod_eq_iff)
  from a b get_request_of_None get_request_of_empty module_init_ok module_init_font_rejected
  show ?thesis
    by blast
qed

section \<open>The colours of the layout\<close>




end
